theory Spec2Isabelle
  imports Complex_Main "HOL-Library.Word"
begin

section \<open>The heuristic mammography scorer of \<^verbatim>\<open>src/utils/image_validator.py\<close>\<close>

text \<open>
  The scorer works on numpy arrays and Python floats. An array is its shape together with
  its elements in row-major order, as numpy stores it. In the sub-scorers and in the
  analysis as a whole floating-point numbers are read as real numbers, without rounding;
  the one float that is not a number, \<^verbatim>\<open>nan\<close>, is kept apart as \<open>None\<close> where numpy can
  produce it (the mean of an empty slice, which numpy answers with a warning and \<^verbatim>\<open>nan\<close>,
  not with an exception). The aggregate of the five sub-scores, where rounding decides the
  verdict at the threshold, is given a second time in binary64 arithmetic.
  The functions of OpenCV are not code of the repository: they are taken as a parameter,
  a record of functions that either raise or return.
\<close>

subsection \<open>Arrays, errors and floats\<close>

type_synonym uint8 = "8 word"

record 'a ndarray =
  shape :: "nat list"
  data :: "'a list"

datatype error = IndexError | ValueError | CvError

type_synonym float = "real option"

definition mean :: "real list \<Rightarrow> real" where
  "mean xs = sum_list xs / real (length xs)"

definition np_mean :: "real list \<Rightarrow> float" where
  "np_mean xs = (if xs = [] then None else Some (mean xs))"

definition variance :: "real list \<Rightarrow> real" where
  "variance xs = mean (map (\<lambda>x. (abs (x - mean xs))\<^sup>2) xs)"

definition np_var :: "real list \<Rightarrow> float" where
  "np_var xs = (if xs = [] then None else Some (variance xs))"

text \<open>\<^verbatim>\<open>np.var\<close> of a Python list of floats: one \<^verbatim>\<open>nan\<close> among them makes the result \<^verbatim>\<open>nan\<close>.\<close>

definition np_var_floats :: "float list \<Rightarrow> float" where
  "np_var_floats fs = (case those fs of None \<Rightarrow> None | Some xs \<Rightarrow> np_var xs)"

definition np_std :: "real list \<Rightarrow> float" where
  "np_std xs = map_option sqrt (np_var xs)"

definition np_max :: "real list \<Rightarrow> error + real" where
  "np_max xs = (case xs of [] \<Rightarrow> Inl ValueError | y # ys \<Rightarrow> Inr (fold max ys y))"

text \<open>The value of an 8-bit intensity as a float, as numpy converts it before it averages.\<close>

definition float_of :: "uint8 \<Rightarrow> real" where
  "float_of x = real (unat x)"

definition astype_float :: "uint8 ndarray \<Rightarrow> real ndarray" where
  "astype_float a = \<lparr>shape = shape a, data = map float_of (data a)\<rparr>"

text \<open>
  \<^verbatim>\<open>a[:, :, c]\<close>: the elements whose third index is \<open>c\<close>, in row-major order. Fewer than
  three axes, or \<open>c\<close> beyond the third axis, is numpy's IndexError.
\<close>

definition channel :: "'a ndarray \<Rightarrow> nat \<Rightarrow> error + 'a list" where
  "channel a c =
     (case shape a of
        h # w # n # rest \<Rightarrow>
          if c < n
          then Inr (concat (map (\<lambda>p. take (prod_list rest) (drop ((p * n + c) * prod_list rest) (data a)))
                                [0..<h * w]))
          else Inl IndexError
      | _ \<Rightarrow> Inl IndexError)"

text \<open>
  \<^verbatim>\<open>a[r0:r1, c0:c1]\<close> with bounds already clipped to the array: the elements of rows
  \<open>r0..<r1\<close> and columns \<open>c0..<c1\<close>. Fewer than two axes is numpy's IndexError.
\<close>

definition slice2 :: "'a ndarray \<Rightarrow> nat \<Rightarrow> nat \<Rightarrow> nat \<Rightarrow> nat \<Rightarrow> error + 'a list" where
  "slice2 a r0 r1 c0 c1 =
     (case shape a of
        h # w # rest \<Rightarrow>
          Inr (concat (map (\<lambda>i. concat (map (\<lambda>j. take (prod_list rest)
                                                     (drop ((i * w + j) * prod_list rest) (data a)))
                                              [c0..<c1]))
                           [r0..<r1]))
      | _ \<Rightarrow> Inl IndexError)"

text \<open>
  Elementwise \<^verbatim>\<open>a - b\<close>. OpenCV's filter returns an array of the shape of its input; an
  answer of another shape is taken as the ValueError numpy raises for operands that do
  not fit together.
\<close>

definition subtract :: "real ndarray \<Rightarrow> real ndarray \<Rightarrow> error + real ndarray" where
  "subtract a b =
     (if shape a = shape b \<and> length (data a) = length (data b)
      then Inr \<lparr>shape = shape a, data = map2 (\<lambda>x y. x - y) (data a) (data b)\<rparr>
      else Inl ValueError)"

definition np_abs :: "real ndarray \<Rightarrow> real ndarray" where
  "np_abs a = \<lparr>shape = shape a, data = map abs (data a)\<rparr>"

subsection \<open>The OpenCV functions the scorer calls\<close>

type_synonym circle = "real \<times> real \<times> real"
type_synonym contour = "(int \<times> int) list"

text \<open>
  Each field is one call of the source with the arguments that vary:
  \<^verbatim>\<open>cvtColor(image, COLOR_RGB2GRAY)\<close>, \<^verbatim>\<open>filter2D(src, -1, kernel)\<close>,
  \<^verbatim>\<open>Canny(gray, 50, 150)\<close>, \<^verbatim>\<open>HoughCircles(gray, HOUGH_GRADIENT, 1, 100, ...)\<close> (\<open>None\<close>
  when no circle is found, else an array of one row of circles),
  \<^verbatim>\<open>findContours(edges, RETR_EXTERNAL, CHAIN_APPROX_SIMPLE)\<close> (the contours),
  \<^verbatim>\<open>calcHist([gray], [0], None, [256], [0, 256])\<close> and
  \<^verbatim>\<open>GaussianBlur(src, (1, 15), 0)\<close>.
\<close>

record cv2 =
  cvtColor :: "uint8 ndarray \<Rightarrow> error + uint8 ndarray"
  filter2D :: "real ndarray \<Rightarrow> real ndarray \<Rightarrow> error + real ndarray"
  Canny :: "uint8 ndarray \<Rightarrow> real \<Rightarrow> real \<Rightarrow> error + uint8 ndarray"
  HoughCircles :: "uint8 ndarray \<Rightarrow> error + circle list list option"
  findContours :: "uint8 ndarray \<Rightarrow> error + contour list"
  calcHist :: "uint8 ndarray \<Rightarrow> error + real ndarray"
  GaussianBlur :: "real ndarray \<Rightarrow> nat \<times> nat \<Rightarrow> real \<Rightarrow> error + real ndarray"

subsection \<open>The five sub-scorers\<close>

text \<open>
  \<^verbatim>\<open>_check_grayscale_nature\<close>. Python's \<^verbatim>\<open>max(0, x)\<close> keeps its first argument unless the
  second is greater, so it is 0 when \<open>x\<close> is \<^verbatim>\<open>nan\<close>.
\<close>

definition check_grayscale_nature :: "uint8 ndarray \<Rightarrow> error + real" where
  "check_grayscale_nature img =
     (if length (shape img) = 2 then Inr 1
      else (case channel img 0 of Inl e \<Rightarrow> Inl e | Inr r \<Rightarrow>
           (case channel img 1 of Inl e \<Rightarrow> Inl e | Inr g \<Rightarrow>
           (case channel img 2 of Inl e \<Rightarrow> Inl e | Inr b \<Rightarrow>
              (let color_variance = np_var_floats
                     [np_mean (map float_of r),
                      np_mean (map float_of g),
                      np_mean (map float_of b)];
                   grayscale_score = (case color_variance of
                                        None \<Rightarrow> 0
                                      | Some v \<Rightarrow> max 0 (1 - v / 1000))
               in Inr (min 1 grayscale_score))))))"

text \<open>\<^verbatim>\<open>_analyze_contrast_patterns\<close>. A comparison with \<^verbatim>\<open>nan\<close> is false.\<close>

definition analyze_contrast_patterns :: "cv2 \<Rightarrow> uint8 ndarray \<Rightarrow> error + real" where
  "analyze_contrast_patterns cv gray_image =
     (let kernel = \<lparr>shape = [5, 5], data = replicate 25 (1 / 25)\<rparr>
      in (case filter2D cv (astype_float gray_image) kernel of Inl e \<Rightarrow> Inl e | Inr blurred \<Rightarrow>
         (case subtract (astype_float gray_image) blurred of Inl e \<Rightarrow> Inl e | Inr d \<Rightarrow>
            (let contrast = np_abs d;
                 contrast_std = np_std (data contrast)
             in (case contrast_std of
                   None \<Rightarrow> Inr 0.3
                 | Some s \<Rightarrow>
                     if 10 < s \<and> s < 50 then Inr 0.8
                     else if 5 < s \<and> s < 80 then Inr 0.6
                     else Inr 0.3)))))"

text \<open>
  \<^verbatim>\<open>circles is not None and len(circles[0]) > 0\<close>. \<^verbatim>\<open>circles[0]\<close> of an array without rows
  is an IndexError.
\<close>

definition circles_found :: "circle list list option \<Rightarrow> error + bool" where
  "circles_found circles =
     (case circles of
        None \<Rightarrow> Inr False
      | Some [] \<Rightarrow> Inl IndexError
      | Some (row # _) \<Rightarrow> Inr (length row > 0))"

text \<open>\<^verbatim>\<open>_analyze_breast_shape_patterns\<close>.\<close>

definition analyze_breast_shape_patterns :: "cv2 \<Rightarrow> uint8 ndarray \<Rightarrow> error + real" where
  "analyze_breast_shape_patterns cv gray_image =
     (case Canny cv gray_image 50 150 of Inl e \<Rightarrow> Inl e | Inr edges \<Rightarrow>
     (case HoughCircles cv gray_image of Inl e \<Rightarrow> Inl e | Inr circles \<Rightarrow>
     (case circles_found circles of Inl e \<Rightarrow> Inl e | Inr found \<Rightarrow>
        if found then Inr 0.7
        else (case findContours cv edges of Inl e \<Rightarrow> Inl e | Inr contours \<Rightarrow>
                if length contours > 5 then Inr 0.6 else Inr 0.4))))"

text \<open>
  \<^verbatim>\<open>_check_medical_artifacts\<close>. \<^verbatim>\<open>[:50]\<close> stops at the end of a shorter axis, and
  \<^verbatim>\<open>[-50:]\<close> starts at 0 on a shorter axis, which is what subtraction on \<open>nat\<close> gives.
\<close>

definition check_medical_artifacts :: "uint8 ndarray \<Rightarrow> error + real" where
  "check_medical_artifacts gray_image =
     (case shape gray_image of
        h # w # rest \<Rightarrow>
          (case slice2 gray_image 0 (min 50 h) 0 (min 50 w) of Inl e \<Rightarrow> Inl e | Inr top_left \<Rightarrow>
          (case slice2 gray_image 0 (min 50 h) (w - 50) w of Inl e \<Rightarrow> Inl e | Inr top_right \<Rightarrow>
          (case slice2 gray_image (h - 50) h 0 (min 50 w) of Inl e \<Rightarrow> Inl e | Inr bottom_left \<Rightarrow>
          (case slice2 gray_image (h - 50) h (w - 50) w of Inl e \<Rightarrow> Inl e | Inr bottom_right \<Rightarrow>
             (let corners = [top_left, top_right, bottom_left, bottom_right];
                  corner_means = map (\<lambda>corner. np_mean (map float_of corner)) corners;
                  corner_variance = np_var_floats corner_means
              in (case corner_variance of
                    None \<Rightarrow> Inr 0.4
                  | Some v \<Rightarrow> if v < 100 then Inr 0.7 else Inr 0.4))))))
      | _ \<Rightarrow> Inl IndexError)"

text \<open>The loop of \<^verbatim>\<open>_analyze_histogram_patterns\<close> over \<^verbatim>\<open>range(1, len(hist_smooth) - 1)\<close>.\<close>

fun find_peaks :: "real list \<Rightarrow> nat list \<Rightarrow> nat list \<Rightarrow> error + nat list" where
  "find_peaks hist_smooth [] peaks = Inr peaks"
| "find_peaks hist_smooth (i # idxs) peaks =
     (if hist_smooth ! i > hist_smooth ! (i - 1) \<and> hist_smooth ! i > hist_smooth ! (i + 1)
      then (case np_max hist_smooth of
              Inl e \<Rightarrow> Inl e
            | Inr m \<Rightarrow>
                if hist_smooth ! i > m * 0.1
                then find_peaks hist_smooth idxs (peaks @ [i])
                else find_peaks hist_smooth idxs peaks)
      else find_peaks hist_smooth idxs peaks)"

definition reshape_row :: "'a ndarray \<Rightarrow> 'a ndarray" where
  "reshape_row a = \<lparr>shape = [1, length (data a)], data = data a\<rparr>"

text \<open>\<^verbatim>\<open>_analyze_histogram_patterns\<close>.\<close>

definition analyze_histogram_patterns :: "cv2 \<Rightarrow> uint8 ndarray \<Rightarrow> error + real" where
  "analyze_histogram_patterns cv gray_image =
     (case calcHist cv gray_image of Inl e \<Rightarrow> Inl e | Inr hist \<Rightarrow>
     (case GaussianBlur cv (reshape_row hist) (1, 15) 0 of Inl e \<Rightarrow> Inl e | Inr blurred \<Rightarrow>
        (let hist_smooth = data blurred
         in (case find_peaks hist_smooth [1..<length hist_smooth - 1] [] of
               Inl e \<Rightarrow> Inl e
             | Inr peaks \<Rightarrow>
                 if 1 \<le> length peaks \<and> length peaks \<le> 3 then Inr 0.8 else Inr 0.5))))"

subsection \<open>The characteristic analysis\<close>

record result =
  is_mammography :: bool
  confidence :: real
  characteristics :: "string \<rightharpoonup> real"

definition initial_result :: result where
  "initial_result = \<lparr>is_mammography = False, confidence = 0, characteristics = Map.empty\<rparr>"

definition set_characteristic :: "string \<Rightarrow> real \<Rightarrow> result \<Rightarrow> result" where
  "set_characteristic k v res = res\<lparr>characteristics := (characteristics res)(k \<mapsto> v)\<rparr>"

text \<open>
  Lines 176 to 181 of \<^verbatim>\<open>_check_mammography_characteristics\<close>: the confidence is
  \<^verbatim>\<open>np.mean(scores)\<close>, and the verdict is set when it exceeds 0.7. This is the reading
  over the real numbers, the one the analysis below uses.
\<close>

definition aggregate :: "real list \<Rightarrow> result \<Rightarrow> result" where
  "aggregate scores res =
     (let res = res\<lparr>confidence := mean scores\<rparr>
      in if confidence res > 0.7 then res\<lparr>is_mammography := True\<rparr> else res)"

text \<open>
  The same lines in the arithmetic Python and numpy compute with, IEEE 754 binary64. A real
  number is rounded to the nearest number with 53 significant bits, a tie going to the even
  significand; below 2 to the power -1022 the spacing stays 2 to the power -1074. Overflow
  is not modelled: the sums of five sub-scores are far from 2 to the power 1024.
\<close>

definition round_half_even :: "real \<Rightarrow> int" where
  "round_half_even y =
     (let f = \<lfloor>y\<rfloor>
      in if y - of_int f < 1 / 2 then f
         else if 1 / 2 < y - of_int f then f + 1
         else if even f then f else f + 1)"

definition ulp_exponent :: "real \<Rightarrow> int" where
  "ulp_exponent x = max (\<lfloor>log 2 \<bar>x\<bar>\<rfloor> - 52) (- 1074)"

definition binary64 :: "real \<Rightarrow> real" where
  "binary64 x =
     (if x = 0 then 0
      else of_int (round_half_even (x / 2 powr of_int (ulp_exponent x)))
           * 2 powr of_int (ulp_exponent x))"

text \<open>
  \<^verbatim>\<open>np.mean\<close> of a list of fewer than eight floats: numpy adds the elements from left to
  right, starting from 0 and rounding every sum, and divides the last sum by the count.
  The literal \<^verbatim>\<open>0.7\<close> of line 180 is the double nearest to 0.7.
\<close>

definition np_mean_binary64 :: "real list \<Rightarrow> real" where
  "np_mean_binary64 xs
     = binary64 (foldl (\<lambda>s x. binary64 (s + x)) 0 xs / real (length xs))"

definition aggregate_binary64 :: "real list \<Rightarrow> result \<Rightarrow> result" where
  "aggregate_binary64 scores res =
     (let res = res\<lparr>confidence := np_mean_binary64 scores\<rparr>
      in if confidence res > binary64 0.7 then res\<lparr>is_mammography := True\<rparr> else res)"

text \<open>Lines 150 to 153: the conversion to grayscale.\<close>

definition to_gray :: "cv2 \<Rightarrow> uint8 ndarray \<Rightarrow> error + uint8 ndarray" where
  "to_gray cv img = (if length (shape img) = 3 then cvtColor cv img else Inr img)"

text \<open>
  \<^verbatim>\<open>_check_mammography_characteristics\<close>. One \<^verbatim>\<open>try\<close> encloses the whole body and its
  handler only logs, so an exception at any step returns the result as it stands then.
\<close>

definition check_mammography_characteristics :: "cv2 \<Rightarrow> uint8 ndarray \<Rightarrow> result" where
  "check_mammography_characteristics cv img =
     (let res0 = initial_result
      in (case to_gray cv img of Inl e \<Rightarrow> res0 | Inr gray \<Rightarrow>
         (case check_grayscale_nature img of Inl e \<Rightarrow> res0 | Inr grayscale_score \<Rightarrow>
         (let res1 = set_characteristic ''grayscale_score'' grayscale_score res0
          in (case analyze_contrast_patterns cv gray of Inl e \<Rightarrow> res1 | Inr contrast_score \<Rightarrow>
         (let res2 = set_characteristic ''contrast_score'' contrast_score res1
          in (case analyze_breast_shape_patterns cv gray of Inl e \<Rightarrow> res2 | Inr shape_score \<Rightarrow>
         (let res3 = set_characteristic ''shape_score'' shape_score res2
          in (case check_medical_artifacts gray of Inl e \<Rightarrow> res3 | Inr artifact_score \<Rightarrow>
         (let res4 = set_characteristic ''artifact_score'' artifact_score res3
          in (case analyze_histogram_patterns cv gray of Inl e \<Rightarrow> res4 | Inr histogram_score \<Rightarrow>
         (let res5 = set_characteristic ''histogram_score'' histogram_score res4
          in aggregate
               [grayscale_score, contrast_score, shape_score, artifact_score, histogram_score]
               res5))))))))))))"

section \<open>Notions the properties are stated with\<close>

text \<open>
  The mean intensity of channel \<open>c\<close> of an image of \<open>npix\<close> pixels and three channels,
  written as a sum over the pixels.
\<close>

definition channel_mean :: "uint8 ndarray \<Rightarrow> nat \<Rightarrow> nat \<Rightarrow> real" where
  "channel_mean img npix c = (\<Sum>p<npix. float_of (data img ! (p * 3 + c))) / real npix"

text \<open>Pixel \<open>p\<close> of a three-channel image has the given red, green and blue intensities.\<close>

definition is_pixel :: "uint8 ndarray \<Rightarrow> nat \<Rightarrow> uint8 \<times> uint8 \<times> uint8 \<Rightarrow> bool" where
  "is_pixel img p rgb =
     (case rgb of (r, g, b) \<Rightarrow>
        data img ! (p * 3) = r \<and> data img ! (p * 3 + 1) = g \<and> data img ! (p * 3 + 2) = b)"

text \<open>
  Some step of the characteristic analysis raises: the conversion to grayscale, or one of
  the five sub-scorers on the image it is given.
\<close>

definition analysis_raises :: "cv2 \<Rightarrow> uint8 ndarray \<Rightarrow> bool" where
  "analysis_raises cv img =
     (case to_gray cv img of
        Inl e \<Rightarrow> True
      | Inr gray \<Rightarrow>
          isl (check_grayscale_nature img) \<or> isl (analyze_contrast_patterns cv gray)
          \<or> isl (analyze_breast_shape_patterns cv gray) \<or> isl (check_medical_artifacts gray)
          \<or> isl (analyze_histogram_patterns cv gray))"

text \<open>The result of an analysis in which every step returned, with the five scores it recorded.\<close>

definition scored :: "real \<Rightarrow> real \<Rightarrow> real \<Rightarrow> real \<Rightarrow> real \<Rightarrow> result" where
  "scored g c s a h =
     aggregate [g, c, s, a, h]
       \<lparr>is_mammography = False, confidence = 0,
        characteristics = [''grayscale_score'' \<mapsto> g, ''contrast_score'' \<mapsto> c,
          ''shape_score'' \<mapsto> s, ''artifact_score'' \<mapsto> a, ''histogram_score'' \<mapsto> h]\<rparr>"

subsection \<open>Example inputs\<close>

text \<open>
  A small stand-in for OpenCV, to run the scorer on concrete images: the gray image is
  the green channel, the blur is the mean of the whole image, no edges, circles or contours
  are found, the histogram counts the 256 intensities and the smoothing leaves it as it is.
\<close>

definition cv_example :: cv2 where
  "cv_example =
     \<lparr>cvtColor = (\<lambda>a. case channel a 1 of
                         Inl e \<Rightarrow> Inl CvError
                       | Inr g \<Rightarrow> Inr \<lparr>shape = take 2 (shape a), data = g\<rparr>),
      filter2D = (\<lambda>src kernel. Inr \<lparr>shape = shape src, data = map (\<lambda>x. mean (data src)) (data src)\<rparr>),
      Canny = (\<lambda>a lo hi. Inr a),
      HoughCircles = (\<lambda>a. Inr None),
      findContours = (\<lambda>a. Inr []),
      calcHist = (\<lambda>a. Inr \<lparr>shape = [256, 1],
                            data = map (\<lambda>v. real (count_list (map unat (data a)) v)) [0..<256]\<rparr>),
      GaussianBlur = (\<lambda>src ksize sigma. Inr src)\<rparr>"

definition gray_example :: "uint8 ndarray" where
  "gray_example = \<lparr>shape = [2, 2], data = [100, 100, 100, 180]\<rparr>"

definition rgb_example :: "uint8 ndarray" where
  "rgb_example = \<lparr>shape = [2, 2, 3],
                   data = [100, 100, 100, 100, 100, 100, 100, 100, 100, 180, 180, 180]\<rparr>"

text \<open>One red pixel beside one blue pixel.\<close>

definition red_blue_example :: "uint8 ndarray" where
  "red_blue_example = \<lparr>shape = [1, 2, 3], data = [255, 0, 0, 0, 0, 255]\<rparr>"

text \<open>
  An image of 512 by 512 pixels whose three channels differ at every pixel: it repeats a
  red, a green, a blue and a dark gray pixel.
\<close>

definition colour_block :: "uint8 list" where
  "colour_block = [255, 0, 0, 0, 255, 0, 0, 0, 255, 85, 85, 85]"

definition colourful_example :: "uint8 ndarray" where
  "colourful_example = \<lparr>shape = [512, 512, 3], data = concat (replicate 65536 colour_block)\<rparr>"

text \<open>
  Two pixels with the mean channel intensities of the photograph the repository's test
  script draws at random (red from 100 to 254, green from 50 to 199, blue from 150 to 254).
\<close>

definition photo_example :: "uint8 ndarray" where
  "photo_example = \<lparr>shape = [1, 2, 3], data = [177, 124, 202, 177, 125, 202]\<rparr>"


definition cv_circle_example :: cv2 where
  "cv_circle_example = cv_example\<lparr>HoughCircles := (\<lambda>a. Inr (Some [[(1, 1, 20)]]))\<rparr>"

text \<open>
  An array of one pixel with two channels, and a stand-in for OpenCV whose edge detector
  raises.
\<close>

definition two_channel_example :: "uint8 ndarray" where
  "two_channel_example = \<lparr>shape = [1, 1, 2], data = [10, 20]\<rparr>"

definition cv_failing_example :: cv2 where
  "cv_failing_example = cv_example\<lparr>Canny := (\<lambda>a lo hi. Inl CvError)\<rparr>"

text \<open>
  Inputs on which each step of the analysis raises in turn: an array of one pixel with one
  channel, which the stand-in cannot convert to gray; a gray array of one axis, as a
  conversion might return it; and stand-ins whose filter or histogram raises.
\<close>

definition one_channel_example :: "uint8 ndarray" where
  "one_channel_example = \<lparr>shape = [1, 1, 1], data = [5]\<rparr>"

definition flat_example :: "uint8 ndarray" where
  "flat_example = \<lparr>shape = [4], data = [100, 100, 100, 180]\<rparr>"

definition cv_filter_failing_example :: cv2 where
  "cv_filter_failing_example = cv_example\<lparr>filter2D := (\<lambda>src kernel. Inl CvError)\<rparr>"

definition cv_flat_example :: cv2 where
  "cv_flat_example = cv_example\<lparr>cvtColor := (\<lambda>a. Inr flat_example)\<rparr>"

definition cv_hist_failing_example :: cv2 where
  "cv_hist_failing_example = cv_example\<lparr>calcHist := (\<lambda>a. Inl CvError)\<rparr>"

section \<open>Properties\<close>

subsection \<open>Auxiliary facts\<close>

lemma take1_drop: "i < length xs \<Longrightarrow> take (Suc 0) (drop i xs) = [xs ! i]"
  by (simp add: take_Suc_conv_app_nth)

lemma pixel_index_bound:
  fixes p n c h w :: nat
  assumes "p < h * w" "c < n"
  shows "p * n + c < h * w * n"
proof -
  have "p * n + c < p * n + n" using assms by simp
  also have "\<dots> = Suc p * n" by simp
  also have "\<dots> \<le> (h * w) * n" using assms(1) by (intro mult_le_mono1) simp
  finally show ?thesis .
qed

lemma channel_3d:
  assumes "shape a = [h, w, n]" "length (data a) = h * w * n" "c < n"
  shows "channel a c = Inr (map (\<lambda>p. data a ! (p * n + c)) [0..<h * w])"
proof -
  have "map (\<lambda>p. take (Suc 0) (drop (p * n + c) (data a))) [0..<h * w]
        = map (\<lambda>p. [data a ! (p * n + c)]) [0..<h * w]"
    using assms by (intro map_cong refl take1_drop) (simp add: pixel_index_bound)
  then have "concat (map (\<lambda>p. take (Suc 0) (drop (p * n + c) (data a))) [0..<h * w])
        = map (\<lambda>p. data a ! (p * n + c)) [0..<h * w]"
    by (simp only: concat_map_singleton)
  then show ?thesis
    using assms by (simp add: channel_def)
qed

lemma np_mean_channel:
  assumes "0 < npix"
  shows "np_mean (map float_of (map (\<lambda>p. data img ! (p * 3 + c)) [0..<npix]))
         = Some (channel_mean img npix c)"
proof -
  have "sum_list (map (\<lambda>p. float_of (data img ! (p * 3 + c))) [0..<npix])
        = (\<Sum>p<npix. float_of (data img ! (p * 3 + c)))"
    by (simp add: interv_sum_list_conv_sum_set_nat atLeast0LessThan)
  then show ?thesis
    using assms by (simp add: np_mean_def mean_def channel_mean_def comp_def)
qed

lemma variance3:
  "variance [a, b, c] =
     ((a - (a + b + c) / 3)\<^sup>2 + (b - (a + b + c) / 3)\<^sup>2 + (c - (a + b + c) / 3)\<^sup>2) / 3"
  by (simp add: variance_def mean_def add.assoc)

lemma np_var_floats3: "np_var_floats [Some a, Some b, Some c] = Some (variance [a, b, c])"
  by (simp add: np_var_floats_def np_var_def)

lemma grayscale_formula:
  assumes "shape img = [h, w, 3]" "length (data img) = h * w * 3" "0 < h * w"
  shows "check_grayscale_nature img =
           Inr (min 1 (max 0 (1 - variance [channel_mean img (h * w) 0,
                                           channel_mean img (h * w) 1,
                                           channel_mean img (h * w) 2] / 1000)))"
proof -
  define ch where "ch c = map (\<lambda>p. data img ! (p * 3 + c)) [0..<h * w]" for c
  have c: "channel img c = Inr (ch c)" if "c < 3" for c
    unfolding ch_def using channel_3d [OF assms(1) assms(2) that] .
  have m: "np_mean (map float_of (ch c)) = Some (channel_mean img (h * w) c)" for c
    unfolding ch_def using np_mean_channel [OF assms(3)] .
  have "length (shape img) \<noteq> 2"
    using assms(1) by simp
  then show ?thesis
    by (simp add: check_grayscale_nature_def c m np_var_floats3 Let_def)
qed

lemma grayscale_range: "check_grayscale_nature img = Inr v \<Longrightarrow> 0 \<le> v \<and> v \<le> 1"
  by (auto simp: check_grayscale_nature_def Let_def split: if_splits sum.splits option.splits)

lemma contrast_values:
  "analyze_contrast_patterns cv gray = Inr v \<Longrightarrow> v = 0.8 \<or> v = 0.6 \<or> v = 0.3"
  by (auto simp: analyze_contrast_patterns_def Let_def split: if_splits sum.splits option.splits)

lemma shape_values:
  "analyze_breast_shape_patterns cv gray = Inr v \<Longrightarrow> v = 0.7 \<or> v = 0.6 \<or> v = 0.4"
  by (auto simp: analyze_breast_shape_patterns_def split: if_splits sum.splits)

lemma artifact_values: "check_medical_artifacts gray = Inr v \<Longrightarrow> v = 0.7 \<or> v = 0.4"
  by (auto simp: check_medical_artifacts_def Let_def
      split: if_splits sum.splits option.splits list.splits)

lemma histogram_values: "analyze_histogram_patterns cv gray = Inr v \<Longrightarrow> v = 0.8 \<or> v = 0.5"
  by (auto simp: analyze_histogram_patterns_def Let_def split: if_splits sum.splits)

lemma check_complete:
  assumes "to_gray cv img = Inr gray"
    and "check_grayscale_nature img = Inr g"
    and "analyze_contrast_patterns cv gray = Inr c"
    and "analyze_breast_shape_patterns cv gray = Inr s"
    and "check_medical_artifacts gray = Inr a"
    and "analyze_histogram_patterns cv gray = Inr h"
  shows "check_mammography_characteristics cv img = scored g c s a h"
  using assms
  by (simp add: check_mammography_characteristics_def scored_def set_characteristic_def
      initial_result_def Let_def)

lemma check_aborted:
  assumes "analysis_raises cv img"
  shows "confidence (check_mammography_characteristics cv img) = 0
         \<and> \<not> is_mammography (check_mammography_characteristics cv img)
         \<and> characteristics (check_mammography_characteristics cv img) ''histogram_score'' = None"
  using assms
  by (auto simp: analysis_raises_def check_mammography_characteristics_def
      set_characteristic_def initial_result_def Let_def isl_def split: sum.splits)

lemma not_raises_complete:
  assumes "\<not> analysis_raises cv img"
  obtains gray g c s a h where "to_gray cv img = Inr gray"
    and "check_grayscale_nature img = Inr g"
    and "analyze_contrast_patterns cv gray = Inr c"
    and "analyze_breast_shape_patterns cv gray = Inr s"
    and "check_medical_artifacts gray = Inr a"
    and "analyze_histogram_patterns cv gray = Inr h"
  using assms
  by (auto simp: analysis_raises_def isl_def split: sum.splits) (metis sum.exhaust)

lemma scored_fields:
  "confidence (scored g c s a h) = (g + c + s + a + h) / 5"
  "is_mammography (scored g c s a h) = ((g + c + s + a + h) / 5 > 0.7)"
  "characteristics (scored g c s a h) ''grayscale_score'' = Some g"
  "characteristics (scored g c s a h) ''contrast_score'' = Some c"
  "characteristics (scored g c s a h) ''shape_score'' = Some s"
  "characteristics (scored g c s a h) ''artifact_score'' = Some a"
  "characteristics (scored g c s a h) ''histogram_score'' = Some h"
  by (simp_all add: scored_def aggregate_def mean_def Let_def)

lemma upt4: "[0..<4] = [0, 1, 2, 3]"
  by (simp add: upt_conv_Cons)

lemma upt2: "[0..<2] = [0, 1]"
  by (simp add: upt_conv_Cons)

lemma example_to_gray: "to_gray cv_example rgb_example = Inr gray_example"
  by (simp add: to_gray_def cv_example_def rgb_example_def gray_example_def channel_def upt4)

lemma example_grayscale: "check_grayscale_nature rgb_example = Inr 1"
  by (simp add: check_grayscale_nature_def rgb_example_def channel_def upt4 np_mean_def
      np_var_floats_def np_var_def variance_def mean_def float_of_def Let_def)

lemma example_filter2D: "filter2D cv_example (astype_float gray_example) k
   = Inr \<lparr>shape = [2, 2], data = [120, 120, 120, 120]\<rparr>"
  by (simp add: cv_example_def astype_float_def gray_example_def mean_def float_of_def)

lemma example_shape: "analyze_breast_shape_patterns cv_example gray_example = Inr 0.4"
  by (simp add: analyze_breast_shape_patterns_def cv_example_def circles_found_def)

lemma example_slice: "slice2 gray_example 0 2 0 2 = Inr [100, 100, 100, 180]"
  by (simp add: slice2_def gray_example_def upt2)

lemma example_corner_mean: "np_mean [float_of 100, float_of 100, float_of 100, float_of 180] = Some 120"
  by (simp add: np_mean_def mean_def float_of_def)

lemma var4_equal: "np_var_floats [Some x, Some x, Some x, Some x] = Some 0"
  by (simp add: np_var_floats_def np_var_def variance_def mean_def)

lemma example_artifact: "check_medical_artifacts gray_example = Inr 0.7"
proof -
  have "shape gray_example = [2, 2]"
    by (simp add: gray_example_def)
  then show ?thesis
    by (simp add: check_medical_artifacts_def example_slice example_corner_mean var4_equal Let_def)
qed

lemma sqrt_band: "0 \<le> lo \<Longrightarrow> 0 \<le> hi \<Longrightarrow> (lo < sqrt v \<and> sqrt v < hi) = (lo\<^sup>2 < v \<and> v < hi\<^sup>2)"
  by (metis real_sqrt_less_iff real_sqrt_abs abs_of_nonneg)

lemma example_contrast: "analyze_contrast_patterns cv_example gray_example = Inr 0.8"
proof -
  have d: "subtract (astype_float gray_example) \<lparr>shape = [2, 2], data = [120, 120, 120, 120]\<rparr>
        = Inr \<lparr>shape = [2, 2], data = [-20, -20, -20, 60]\<rparr>"
    by (simp add: subtract_def astype_float_def gray_example_def float_of_def)
  have s: "np_std [20, 20, 20, 60] = Some (sqrt 300)"
    by (simp add: np_std_def np_var_def variance_def mean_def)
  have "(10 < sqrt 300 \<and> sqrt 300 < 50)"
    using sqrt_band [of 10 50 300] by simp
  then show ?thesis
    by (simp add: analyze_contrast_patterns_def example_filter2D d np_abs_def s Let_def)
qed

lemma example_histogram: "analyze_histogram_patterns cv_example gray_example = Inr 0.8"
  by code_simp

lemma channel_mean_sum_list:
  "channel_mean img npix c = sum_list (map (\<lambda>p. float_of (data img ! (p * 3 + c))) [0..<npix]) / real npix"
  by (simp add: channel_mean_def interv_sum_list_conv_sum_set_nat atLeast0LessThan)

lemma two_valued_sum:
  fixes F :: "nat \<Rightarrow> real"
  assumes "\<forall>i\<in>set idxs. (A i \<and> F i = a) \<or> (B i \<and> F i = b)"
    and "\<forall>i\<in>set idxs. \<not> (A i \<and> B i)"
  shows "sum_list (map F idxs) = real (length (filter A idxs)) * a + real (length (filter B idxs)) * b"
  using assms by (induction idxs) (auto simp: algebra_simps)

lemma two_valued_length:
  assumes "\<forall>i\<in>set idxs. A i \<or> B i" and "\<forall>i\<in>set idxs. \<not> (A i \<and> B i)"
  shows "length idxs = length (filter A idxs) + length (filter B idxs)"
  using assms by (induction idxs) auto

lemma float_of_simps: "float_of 255 = 255" "float_of 0 = 0"
  by (simp_all add: float_of_def)

lemma less2: "(p::nat) < 2 \<longleftrightarrow> p = 0 \<or> p = 1"
  by auto

lemma less4: "(p::nat) < 4 \<longleftrightarrow> p = 0 \<or> p = 1 \<or> p = 2 \<or> p = 3"
  by auto

lemma channel_mean_cong:
  assumes "\<forall>p<npix. data img ! (p * 3 + c) = data img ! (p * 3 + c')"
  shows "channel_mean img npix c = channel_mean img npix c'"
  using assms by (simp add: channel_mean_def)

lemma variance3_equal: "variance [m, m, m] = 0"
  by (simp add: variance3)

lemma periodic_sum:
  fixes g :: "'a \<Rightarrow> real"
  assumes "length block = q * 3" and "c < 3"
  shows "(\<Sum>p<m * q. g (concat (replicate m block) ! (p * 3 + c)))
         = real m * (\<Sum>p<q. g (block ! (p * 3 + c)))"
proof (induction m)
  case 0
  then show ?case by simp
next
  case (Suc m)
  let ?D = "concat (replicate m block)"
  let ?F = "\<lambda>p. g ((block @ ?D) ! (p * 3 + c))"
  have split: "(\<Sum>p<q + m * q. ?F p) = (\<Sum>p<q. ?F p) + (\<Sum>p<m * q. ?F (p + q))"
  proof -
    have "(\<Sum>p\<in>{0..<q + m * q}. ?F p) = (\<Sum>p\<in>{0..<q}. ?F p) + (\<Sum>p\<in>{q..<q + m * q}. ?F p)"
      by (rule sum.atLeastLessThan_concat [symmetric]) simp_all
    moreover have "(\<Sum>p\<in>{q..<q + m * q}. ?F p) = (\<Sum>p\<in>{0..<m * q}. ?F (p + q))"
      using sum.shift_bounds_nat_ivl [of ?F 0 q "m * q"] by (simp add: add.commute)
    ultimately show ?thesis
      by (simp only: atLeast0LessThan)
  qed
  have low: "(\<Sum>p<q. ?F p) = (\<Sum>p<q. g (block ! (p * 3 + c)))"
  proof (rule sum.cong [OF refl])
    fix p assume "p \<in> {..<q}"
    then have "p * 3 + c < length block"
      using assms by simp
    then show "?F p = g (block ! (p * 3 + c))"
      by (simp add: nth_append)
  qed
  have high: "(\<Sum>p<m * q. ?F (p + q)) = (\<Sum>p<m * q. g (?D ! (p * 3 + c)))"
  proof (rule sum.cong [OF refl])
    fix p
    have "(p + q) * 3 + c = length block + (p * 3 + c)"
      using assms by (simp add: algebra_simps)
    then show "?F (p + q) = g (?D ! (p * 3 + c))"
      by (simp only: nth_append_length_plus)
  qed
  have "(\<Sum>p<Suc m * q. g (concat (replicate (Suc m) block) ! (p * 3 + c)))
        = (\<Sum>p<q + m * q. ?F p)"
    by simp
  also have "\<dots> = (\<Sum>p<q. g (block ! (p * 3 + c))) + (\<Sum>p<m * q. g (?D ! (p * 3 + c)))"
    by (simp only: split low high)
  also have "\<dots> = (\<Sum>p<q. g (block ! (p * 3 + c))) + real m * (\<Sum>p<q. g (block ! (p * 3 + c)))"
    by (simp only: Suc.IH)
  also have "\<dots> = real (Suc m) * (\<Sum>p<q. g (block ! (p * 3 + c)))"
    by (simp add: algebra_simps)
  finally show ?case .
qed

lemma length_concat_replicate: "length (concat (replicate m block)) = m * length block"
  by (induction m) simp_all

lemma sum_lessThan4: "(\<Sum>p<(4::nat). f p) = f 0 + f 1 + f 2 + (f 3 :: real)"
  by (simp add: eval_nat_numeral)

lemma block_sums:
  assumes "c < 3"
  shows "(\<Sum>p<4. float_of (colour_block ! (p * 3 + c))) = 340"
proof -
  consider "c = 0" | "c = 1" | "c = 2"
    using assms by linarith
  then show ?thesis
    by cases (simp_all add: sum_lessThan4 colour_block_def float_of_def)
qed

lemma colourful_mean:
  assumes "c < 3"
  shows "channel_mean colourful_example (512 * 512) c = 85"
proof -
  have "(\<Sum>p<65536 * 4. float_of (concat (replicate 65536 colour_block) ! (p * 3 + c)))
        = real 65536 * (\<Sum>p<4. float_of (colour_block ! (p * 3 + c)))"
    by (rule periodic_sum) (simp_all add: colour_block_def assms)
  then have "(\<Sum>p<65536 * 4. float_of (concat (replicate 65536 colour_block) ! (p * 3 + c)))
        = real 65536 * 340"
    by (simp only: block_sums [OF assms])
  then show ?thesis
    by (simp add: channel_mean_def colourful_example_def)
qed

lemma photo_means:
  "channel_mean photo_example (1 * 2) 0 = 177"
  "channel_mean photo_example (1 * 2) 1 = 249 / 2"
  "channel_mean photo_example (1 * 2) 2 = 202"
  by (simp_all add: channel_mean_sum_list upt2 photo_example_def float_of_def)



lemma check_cases:
  obtains (raises) "analysis_raises cv img"
    "confidence (check_mammography_characteristics cv img) = 0"
    "\<not> is_mammography (check_mammography_characteristics cv img)"
    "characteristics (check_mammography_characteristics cv img) ''histogram_score'' = None"
  | (complete) gray g c s a h where "\<not> analysis_raises cv img"
    "to_gray cv img = Inr gray"
    "check_grayscale_nature img = Inr g"
    "analyze_contrast_patterns cv gray = Inr c"
    "analyze_breast_shape_patterns cv gray = Inr s"
    "check_medical_artifacts gray = Inr a"
    "analyze_histogram_patterns cv gray = Inr h"
    "check_mammography_characteristics cv img = scored g c s a h"
proof (cases "analysis_raises cv img")
  case True
  then show ?thesis
    using check_aborted [OF True] raises by blast
next
  case False
  then show ?thesis
    using not_raises_complete [OF False] check_complete complete by metis
qed

lemma recorded_scores:
  assumes "characteristics (check_mammography_characteristics cv img) k = Some v"
  shows "\<exists>gray. to_gray cv img = Inr gray
           \<and> (check_grayscale_nature img = Inr v \<or> analyze_contrast_patterns cv gray = Inr v
              \<or> analyze_breast_shape_patterns cv gray = Inr v \<or> check_medical_artifacts gray = Inr v
              \<or> analyze_histogram_patterns cv gray = Inr v)"
  using assms
  by (auto simp: check_mammography_characteristics_def set_characteristic_def initial_result_def
      aggregate_def Let_def split: sum.splits if_splits)

lemma example_check:
  "check_mammography_characteristics cv_example rgb_example = scored 1 0.8 0.4 0.7 0.8"
  by (rule check_complete [OF example_to_gray example_grayscale example_contrast example_shape
        example_artifact example_histogram])

lemma unit_interval:
  "check_grayscale_nature img = Inr v \<Longrightarrow> 0 \<le> v \<and> v \<le> 1"
  "analyze_contrast_patterns cv gray = Inr v \<Longrightarrow> 0 \<le> v \<and> v \<le> 1"
  "analyze_breast_shape_patterns cv gray = Inr v \<Longrightarrow> 0 \<le> v \<and> v \<le> 1"
  "check_medical_artifacts gray = Inr v \<Longrightarrow> 0 \<le> v \<and> v \<le> 1"
  "analyze_histogram_patterns cv gray = Inr v \<Longrightarrow> 0 \<le> v \<and> v \<le> 1"
  using grayscale_range [of img v] contrast_values [of cv gray v] shape_values [of cv gray v]
    artifact_values [of gray v] histogram_values [of cv gray v]
  by auto

lemma failing_example_steps:
  "to_gray cv_failing_example rgb_example = Inr gray_example"
  "analyze_contrast_patterns cv_failing_example gray_example = Inr 0.8"
  "analyze_breast_shape_patterns cv_failing_example gray_example = Inl CvError"
proof -
  have "to_gray cv_failing_example rgb_example = to_gray cv_example rgb_example"
    by (simp add: to_gray_def cv_failing_example_def)
  then show "to_gray cv_failing_example rgb_example = Inr gray_example"
    by (simp only: example_to_gray)
  have "analyze_contrast_patterns cv_failing_example gray_example
        = analyze_contrast_patterns cv_example gray_example"
    by (simp add: analyze_contrast_patterns_def cv_failing_example_def)
  then show "analyze_contrast_patterns cv_failing_example gray_example = Inr 0.8"
    by (simp add: example_contrast)
  show "analyze_breast_shape_patterns cv_failing_example gray_example = Inl CvError"
    by (simp add: analyze_breast_shape_patterns_def cv_failing_example_def)
qed

lemma one_channel_steps:
  "to_gray cv_example one_channel_example = Inl CvError"
  by (simp add: to_gray_def cv_example_def one_channel_example_def channel_def)

lemma two_channel_steps:
  "to_gray cv_example two_channel_example = Inr \<lparr>shape = [1, 1], data = [20]\<rparr>"
  "check_grayscale_nature two_channel_example = Inl IndexError"
  by (simp_all add: to_gray_def cv_example_def two_channel_example_def channel_def
      check_grayscale_nature_def)

lemma filter_failing_steps:
  "to_gray cv_filter_failing_example rgb_example = Inr gray_example"
  "analyze_contrast_patterns cv_filter_failing_example gray_example = Inl CvError"
proof -
  have "to_gray cv_filter_failing_example rgb_example = to_gray cv_example rgb_example"
    by (simp add: to_gray_def cv_filter_failing_example_def)
  then show "to_gray cv_filter_failing_example rgb_example = Inr gray_example"
    by (simp only: example_to_gray)
  show "analyze_contrast_patterns cv_filter_failing_example gray_example = Inl CvError"
    by (simp add: analyze_contrast_patterns_def cv_filter_failing_example_def)
qed

lemma flat_steps:
  "to_gray cv_flat_example rgb_example = Inr flat_example"
  "analyze_contrast_patterns cv_flat_example flat_example = Inr 0.8"
  "analyze_breast_shape_patterns cv_flat_example flat_example = Inr 0.4"
  "check_medical_artifacts flat_example = Inl IndexError"
proof -
  show "to_gray cv_flat_example rgb_example = Inr flat_example"
    by (simp add: to_gray_def cv_flat_example_def rgb_example_def)
  have f: "filter2D cv_flat_example (astype_float flat_example) k
           = Inr \<lparr>shape = [4], data = [120, 120, 120, 120]\<rparr>" for k
    by (simp add: cv_flat_example_def cv_example_def astype_float_def flat_example_def mean_def
        float_of_def)
  have d: "subtract (astype_float flat_example) \<lparr>shape = [4], data = [120, 120, 120, 120]\<rparr>
        = Inr \<lparr>shape = [4], data = [-20, -20, -20, 60]\<rparr>"
    by (simp add: subtract_def astype_float_def flat_example_def float_of_def)
  have s: "np_std [20, 20, 20, 60] = Some (sqrt 300)"
    by (simp add: np_std_def np_var_def variance_def mean_def)
  have "10 < sqrt 300 \<and> sqrt 300 < 50"
    using sqrt_band [of 10 50 300] by simp
  then show "analyze_contrast_patterns cv_flat_example flat_example = Inr 0.8"
    by (simp add: analyze_contrast_patterns_def f d np_abs_def s Let_def)
  show "analyze_breast_shape_patterns cv_flat_example flat_example = Inr 0.4"
    by (simp add: analyze_breast_shape_patterns_def cv_flat_example_def cv_example_def
        circles_found_def)
  show "check_medical_artifacts flat_example = Inl IndexError"
    by (simp add: check_medical_artifacts_def flat_example_def)
qed

lemma hist_failing_steps:
  "to_gray cv_hist_failing_example rgb_example = Inr gray_example"
  "analyze_contrast_patterns cv_hist_failing_example gray_example = Inr 0.8"
  "analyze_breast_shape_patterns cv_hist_failing_example gray_example = Inr 0.4"
  "analyze_histogram_patterns cv_hist_failing_example gray_example = Inl CvError"
proof -
  have "to_gray cv_hist_failing_example rgb_example = to_gray cv_example rgb_example"
    by (simp add: to_gray_def cv_hist_failing_example_def)
  then show "to_gray cv_hist_failing_example rgb_example = Inr gray_example"
    by (simp only: example_to_gray)
  have "analyze_contrast_patterns cv_hist_failing_example gray_example
        = analyze_contrast_patterns cv_example gray_example"
    by (simp add: analyze_contrast_patterns_def cv_hist_failing_example_def)
  then show "analyze_contrast_patterns cv_hist_failing_example gray_example = Inr 0.8"
    by (simp only: example_contrast)
  show "analyze_breast_shape_patterns cv_hist_failing_example gray_example = Inr 0.4"
    by (simp add: analyze_breast_shape_patterns_def cv_hist_failing_example_def cv_example_def
        circles_found_def)
  show "analyze_histogram_patterns cv_hist_failing_example gray_example = Inl CvError"
    by (simp add: analyze_histogram_patterns_def cv_hist_failing_example_def)
qed

subsection \<open>The aggregate\<close>

text \<open>Rounding to binary64: the error of one rounding, and its value on a binade.\<close>

lemma round_half_even_error: "\<bar>of_int (round_half_even y) - y\<bar> \<le> 1 / 2"
  unfolding round_half_even_def Let_def by (auto split: if_splits; linarith)

lemma round_half_even_nonneg: "0 \<le> y \<Longrightarrow> 0 \<le> round_half_even y"
  unfolding round_half_even_def Let_def by (auto split: if_splits; linarith)

lemma round_half_even_near: "\<bar>y - of_int n\<bar> < 1 / 2 \<Longrightarrow> round_half_even y = n"
proof -
  assume a: "\<bar>y - of_int n\<bar> < 1 / 2"
  then consider "\<lfloor>y\<rfloor> = n" | "\<lfloor>y\<rfloor> = n - 1" by linarith
  then show ?thesis
  proof cases
    case 1
    moreover have "y - of_int n < 1 / 2" using a by linarith
    ultimately show ?thesis by (simp add: round_half_even_def Let_def)
  next
    case 2
    have hi: "of_int n - y < 1 / 2" using a by linarith
    have "1 / 2 < y - of_int (n - 1)"
      unfolding of_int_diff of_int_1 using hi by linarith
    then have "1 / 2 < y - of_int \<lfloor>y\<rfloor>" "\<not> y - of_int \<lfloor>y\<rfloor> < 1 / 2"
      unfolding 2 by linarith+
    then show ?thesis using 2 by (simp only: round_half_even_def Let_def if_True if_False)
  qed
qed

lemma round_half_even_tie:
  "y = of_int n + 1 / 2 \<Longrightarrow> round_half_even y = (if even n then n else n + 1)"
proof -
  assume y: "y = of_int n + 1 / 2"
  then have "\<lfloor>y\<rfloor> = n" by linarith
  then show ?thesis
    using y by (simp add: round_half_even_def Let_def)
qed

lemma floor_log2: "x \<noteq> 0 \<Longrightarrow> 2 powr of_int \<lfloor>log 2 \<bar>x\<bar>\<rfloor> \<le> \<bar>x\<bar>"
  using floor_log_eq_powr_iff [of "\<bar>x\<bar>" 2 "\<lfloor>log 2 \<bar>x\<bar>\<rfloor>"] by simp

lemma binary64_error: "\<bar>binary64 x - x\<bar> \<le> \<bar>x\<bar> / 2 ^ 53 + 2 powr (- 1075)"
proof (cases "x = 0")
  case True
  then show ?thesis by (simp add: binary64_def)
next
  case False
  define e where "e = ulp_exponent x"
  define p :: real where "p = 2 powr of_int e"
  have p: "0 < p" by (simp add: p_def)
  have "binary64 x - x = (of_int (round_half_even (x / p)) - x / p) * p"
    using False p by (simp add: binary64_def e_def p_def field_simps)
  then have "\<bar>binary64 x - x\<bar> = \<bar>of_int (round_half_even (x / p)) - x / p\<bar> * p"
    using p by (simp add: abs_mult)
  also have "\<dots> \<le> 1 / 2 * p"
    using p round_half_even_error [of "x / p"] by (intro mult_right_mono) auto
  finally have half: "\<bar>binary64 x - x\<bar> \<le> p / 2" by simp
  show ?thesis
  proof (cases "\<lfloor>log 2 \<bar>x\<bar>\<rfloor> - 52 \<ge> - 1074")
    case True
    then have "e = \<lfloor>log 2 \<bar>x\<bar>\<rfloor> - 52"
      by (simp add: e_def ulp_exponent_def)
    then have "p = 2 powr of_int \<lfloor>log 2 \<bar>x\<bar>\<rfloor> / 2 ^ 52"
      by (simp add: p_def powr_diff)
    then have "p \<le> \<bar>x\<bar> / 2 ^ 52"
      using floor_log2 [OF False] by (simp add: divide_right_mono)
    then have "p / 2 \<le> \<bar>x\<bar> / 2 ^ 53" by simp
    moreover have "(0::real) \<le> 2 powr (- 1075)" by simp
    ultimately show ?thesis using half by linarith
  next
    case False
    then have "e = - 1074"
      by (simp add: e_def ulp_exponent_def)
    moreover have "(2::real) powr (- 1074) = 2 powr (- 1075) * 2"
      using powr_add [of "2::real" "- 1075" 1] by simp
    ultimately have "p / 2 = 2 powr (- 1075)"
      by (simp add: p_def)
    then show ?thesis using half by simp
  qed
qed

lemma binary64_nonneg: "0 \<le> x \<Longrightarrow> 0 \<le> binary64 x"
  by (simp add: binary64_def round_half_even_nonneg)


lemma binary64_eval:
  assumes "2 powr of_int k \<le> \<bar>x\<bar>" and "\<bar>x\<bar> < 2 powr of_int (k + 1)" and "- 1022 \<le> k"
  shows "binary64 x
         = of_int (round_half_even (x / 2 powr of_int (k - 52))) * 2 powr of_int (k - 52)"
proof -
  have pos: "0 < \<bar>x\<bar>"
    using assms(1) powr_gt_zero [of 2 "of_int k"] by linarith
  then have nz: "x \<noteq> 0" by simp
  have "\<lfloor>log 2 \<bar>x\<bar>\<rfloor> = k"
    using floor_log_eq_powr_iff [of "\<bar>x\<bar>" 2 k] pos assms(1,2) by simp
  then have "ulp_exponent x = k - 52"
    using assms(3) by (simp add: ulp_exponent_def)
  then show ?thesis using nz by (simp add: binary64_def)
qed

lemma binary64_half:
  "1 / 2 \<le> x \<Longrightarrow> x < 1
   \<Longrightarrow> binary64 x = of_int (round_half_even (x * 2 ^ 53)) / 2 ^ 53"
  using binary64_eval [of "- 1" x] by (simp add: powr_neg_numeral)




lemma binary64_error_bound: "\<bar>binary64 x - x\<bar> \<le> \<bar>x\<bar> / 2 ^ 53 + 1 / 2 ^ 60"
proof -
  have "(2::real) powr (- 1075) \<le> 2 powr (- 60)"
    by (rule powr_mono) simp_all
  also have "\<dots> = 1 / 2 ^ 60"
    by (simp add: powr_neg_numeral)
  finally show ?thesis
    using binary64_error [of x] by linarith
qed

lemma binary64_step:
  assumes "0 \<le> x"
  shows "0 \<le> binary64 x" and "binary64 x \<le> x + x / 2 ^ 53 + 1 / 2 ^ 60"
    and "x - x / 2 ^ 53 - 1 / 2 ^ 60 \<le> binary64 x"
  using binary64_error_bound [of x] binary64_nonneg [OF assms] assms by simp_all

text \<open>The roundings of the examples, step by step.\<close>

lemma double_0_7: "binary64 0.7 = 3152519739159347 / 4503599627370496"
  using binary64_half [of "0.7"] by (simp add: round_half_even_def Let_def)




































lemma np_mean_binary64_accuracy:
  assumes "0 \<le> g" "g \<le> 1" "0 \<le> c" "c \<le> 1" "0 \<le> s" "s \<le> 1"
    and "0 \<le> a" "a \<le> 1" "0 \<le> h" "h \<le> 1"
  shows "\<bar>np_mean_binary64 [g, c, s, a, h] - (g + c + s + a + h) / 5\<bar> \<le> 1 / 2 ^ 50"
proof -
  define p1 where "p1 = binary64 (0 + g)"
  define p2 where "p2 = binary64 (p1 + c)"
  define p3 where "p3 = binary64 (p2 + s)"
  define p4 where "p4 = binary64 (p3 + a)"
  define p5 where "p5 = binary64 (p4 + h)"
  define q where "q = binary64 (p5 / 5)"
  have q: "np_mean_binary64 [g, c, s, a, h] = q"
    by (simp add: np_mean_binary64_def q_def p5_def p4_def p3_def p2_def p1_def)
  have 1: "0 \<le> p1" "p1 \<le> g + g / 2 ^ 53 + 1 / 2 ^ 60" "g - g / 2 ^ 53 - 1 / 2 ^ 60 \<le> p1"
    using binary64_step [of "0 + g"] assms unfolding p1_def by simp_all
  have 2: "0 \<le> p2" "p2 \<le> (p1 + c) + (p1 + c) / 2 ^ 53 + 1 / 2 ^ 60"
    "(p1 + c) - (p1 + c) / 2 ^ 53 - 1 / 2 ^ 60 \<le> p2"
    using binary64_step [of "p1 + c"] assms 1 unfolding p2_def by simp_all
  have 3: "0 \<le> p3" "p3 \<le> (p2 + s) + (p2 + s) / 2 ^ 53 + 1 / 2 ^ 60"
    "(p2 + s) - (p2 + s) / 2 ^ 53 - 1 / 2 ^ 60 \<le> p3"
    using binary64_step [of "p2 + s"] assms 2 unfolding p3_def by simp_all
  have 4: "0 \<le> p4" "p4 \<le> (p3 + a) + (p3 + a) / 2 ^ 53 + 1 / 2 ^ 60"
    "(p3 + a) - (p3 + a) / 2 ^ 53 - 1 / 2 ^ 60 \<le> p4"
    using binary64_step [of "p3 + a"] assms 3 unfolding p4_def by simp_all
  have 5: "0 \<le> p5" "p5 \<le> (p4 + h) + (p4 + h) / 2 ^ 53 + 1 / 2 ^ 60"
    "(p4 + h) - (p4 + h) / 2 ^ 53 - 1 / 2 ^ 60 \<le> p5"
    using binary64_step [of "p4 + h"] assms 4 unfolding p5_def by simp_all
  have 6: "q \<le> p5 / 5 + p5 / 5 / 2 ^ 53 + 1 / 2 ^ 60"
    "p5 / 5 - p5 / 5 / 2 ^ 53 - 1 / 2 ^ 60 \<le> q"
    using binary64_step [of "p5 / 5"] 5 unfolding q_def by simp_all
  have b1: "p1 \<le> g + 2 / 2 ^ 53" "g - 2 / 2 ^ 53 \<le> p1"
    using assms(1,2) 1 by (simp_all add: add_divide_distrib)
  have b2: "p2 \<le> g + c + 5 / 2 ^ 53" "g + c - 5 / 2 ^ 53 \<le> p2"
    using assms(1-4) b1 2 by (simp_all add: add_divide_distrib)
  have b3: "p3 \<le> g + c + s + 9 / 2 ^ 53" "g + c + s - 9 / 2 ^ 53 \<le> p3"
    using assms(1-6) b2 3 by (simp_all add: add_divide_distrib)
  have b4: "p4 \<le> g + c + s + a + 14 / 2 ^ 53" "g + c + s + a - 14 / 2 ^ 53 \<le> p4"
    using assms(1-8) b3 4 by (simp_all add: add_divide_distrib)
  have b5: "p5 \<le> g + c + s + a + h + 20 / 2 ^ 53" "g + c + s + a + h - 20 / 2 ^ 53 \<le> p5"
    using assms b4 5 by (simp_all add: add_divide_distrib)
  have u: "q \<le> (g + c + s + a + h) / 5 + 8 / 2 ^ 53"
    using assms b5 5(1) 6 by (simp add: add_divide_distrib)
  have l: "(g + c + s + a + h) / 5 - 8 / 2 ^ 53 \<le> q"
    using assms b5 5(1) 6 by (simp add: add_divide_distrib)
  have "q - (g + c + s + a + h) / 5 \<le> 1 / 2 ^ 50"
    using u by (simp add: add_divide_distrib)
  moreover have "- (q - (g + c + s + a + h) / 5) \<le> 1 / 2 ^ 50"
    using l by (simp add: add_divide_distrib)
  ultimately show ?thesis
    unfolding q abs_le_iff by blast
qed

lemma aggregate_binary64_fields:
  "confidence (aggregate_binary64 scores res) = np_mean_binary64 scores"
  "is_mammography (aggregate_binary64 scores res)
   = (is_mammography res \<or> np_mean_binary64 scores > binary64 0.7)"
  by (simp_all add: aggregate_binary64_def Let_def)

lemma aggregate_readings_agree:
  assumes "0 \<le> g" "g \<le> 1" "0 \<le> c" "c \<le> 1" "0 \<le> s" "s \<le> 1"
    and "0 \<le> a" "a \<le> 1" "0 \<le> h" "h \<le> 1"
  shows "\<bar>confidence (aggregate_binary64 [g, c, s, a, h] res)
          - confidence (aggregate [g, c, s, a, h] res)\<bar> \<le> 1 / 2 ^ 50"
    and "1 / 2 ^ 49 < \<bar>(g + c + s + a + h) / 5 - 0.7\<bar>
         \<Longrightarrow> is_mammography (aggregate_binary64 [g, c, s, a, h] res)
             = is_mammography (aggregate [g, c, s, a, h] res)"
proof -
  define X where "X = (g + c + s + a + h) / 5"
  define M where "M = np_mean_binary64 [g, c, s, a, h]"
  have m: "mean [g, c, s, a, h] = X"
    by (simp add: mean_def X_def)
  have acc: "\<bar>M - X\<bar> \<le> 1 / 2 ^ 50"
    unfolding M_def X_def using assms by (rule np_mean_binary64_accuracy)
  show "\<bar>confidence (aggregate_binary64 [g, c, s, a, h] res)
          - confidence (aggregate [g, c, s, a, h] res)\<bar> \<le> 1 / 2 ^ 50"
    using acc by (simp add: aggregate_binary64_fields aggregate_def Let_def m M_def)
  assume "1 / 2 ^ 49 < \<bar>(g + c + s + a + h) / 5 - 0.7\<bar>"
  then have far: "1 / 2 ^ 49 < \<bar>X - 0.7\<bar>"
    by (simp only: X_def)
  have "(M > 3152519739159347 / 4503599627370496) = (X > 0.7)"
    using acc far by (simp add: abs_if split: if_splits)
  then show "is_mammography (aggregate_binary64 [g, c, s, a, h] res)
             = is_mammography (aggregate [g, c, s, a, h] res)"
    by (simp only: aggregate_binary64_fields double_0_7 M_def [symmetric])
       (simp add: aggregate_def Let_def m)
qed




subsection \<open>The grayscale score\<close>

text \<open>
  C5. An image of three channels whose pixels are each pure red or pure blue, as many of
  the one as of the other, has a grayscale score strictly below 0.5.
\<close>

theorem red_blue_halves_score:
  assumes "shape img = [h, w, 3]" and "length (data img) = h * w * 3" and "0 < h * w"
    and "\<forall>p<h * w. is_pixel img p (255, 0, 0) \<or> is_pixel img p (0, 0, 255)"
    and "length (filter (\<lambda>p. is_pixel img p (255, 0, 0)) [0..<h * w])
         = length (filter (\<lambda>p. is_pixel img p (0, 0, 255)) [0..<h * w])"
  shows "\<exists>v. check_grayscale_nature img = Inr v \<and> v < 0.5"
proof -
  let ?R = "\<lambda>p. is_pixel img p (255, 0, 0)" and ?B = "\<lambda>p. is_pixel img p (0, 0, 255)"
  define k where "k = length (filter ?R [0..<h * w])"
  have kB: "length (filter ?B [0..<h * w]) = k"
    using assms(5) by (simp add: k_def)
  have excl: "\<forall>p\<in>set [0..<h * w]. \<not> (?R p \<and> ?B p)"
    by (simp add: is_pixel_def)
  have cover: "\<forall>p\<in>set [0..<h * w]. ?R p \<or> ?B p"
    using assms(4) by simp
  have n: "h * w = k + k"
    using two_valued_length [OF cover excl] kB by (simp add: k_def)
  have k0: "0 < k"
    using n assms(3) by simp
  have "sum_list (map (\<lambda>p. float_of (data img ! (p * 3 + 0))) [0..<h * w])
        = real (length (filter ?R [0..<h * w])) * 255 + real (length (filter ?B [0..<h * w])) * 0"
    by (rule two_valued_sum [OF _ excl]) (use cover in \<open>auto simp: is_pixel_def float_of_simps\<close>)
  then have s0: "sum_list (map (\<lambda>p. float_of (data img ! (p * 3 + 0))) [0..<h * w])
        = real k * 255 + real k * 0"
    by (simp only: kB k_def [symmetric])
  have "sum_list (map (\<lambda>p. float_of (data img ! (p * 3 + 1))) [0..<h * w])
        = real (length (filter ?R [0..<h * w])) * 0 + real (length (filter ?B [0..<h * w])) * 0"
    by (rule two_valued_sum [OF _ excl]) (use cover in \<open>auto simp: is_pixel_def float_of_simps\<close>)
  then have s1: "sum_list (map (\<lambda>p. float_of (data img ! (p * 3 + 1))) [0..<h * w])
        = real k * 0 + real k * 0"
    by (simp only: kB k_def [symmetric])
  have "sum_list (map (\<lambda>p. float_of (data img ! (p * 3 + 2))) [0..<h * w])
        = real (length (filter ?R [0..<h * w])) * 0 + real (length (filter ?B [0..<h * w])) * 255"
    by (rule two_valued_sum [OF _ excl]) (use cover in \<open>auto simp: is_pixel_def float_of_simps\<close>)
  then have s2: "sum_list (map (\<lambda>p. float_of (data img ! (p * 3 + 2))) [0..<h * w])
        = real k * 0 + real k * 255"
    by (simp only: kB k_def [symmetric])
  have "real (h * w) = 2 * real k"
    by (simp add: n)
  then have rn: "real h * real w = 2 * real k"
    by simp
  have "channel_mean img (h * w) 0 = (real k * 255 + real k * 0) / real (h * w)"
    by (simp only: channel_mean_sum_list s0)
  then have m0: "channel_mean img (h * w) 0 = 255 / 2"
    using k0 by (simp add: rn)
  have "channel_mean img (h * w) 1 = (real k * 0 + real k * 0) / real (h * w)"
    by (simp only: channel_mean_sum_list s1)
  then have m1: "channel_mean img (h * w) 1 = 0"
    by simp
  have "channel_mean img (h * w) 2 = (real k * 0 + real k * 255) / real (h * w)"
    by (simp only: channel_mean_sum_list s2)
  then have m2: "channel_mean img (h * w) 2 = 255 / 2"
    using k0 by (simp add: rn)
  have "check_grayscale_nature img = Inr (min 1 (max 0 (1 - variance [255 / 2, 0, 255 / 2] / 1000)))"
    by (simp only: grayscale_formula [OF assms(1-3)] m0 m1 m2)
  then have "check_grayscale_nature img = Inr 0"
    by (simp add: variance3 power2_eq_square)
  then show ?thesis by simp
qed

theorem red_blue_halves_score_witness:
  "shape red_blue_example = [1, 2, 3] \<and> length (data red_blue_example) = 1 * 2 * 3 \<and> (0::nat) < 1 * 2
   \<and> is_pixel red_blue_example 0 (255, 0, 0) \<and> is_pixel red_blue_example 1 (0, 0, 255)
   \<and> length (filter (\<lambda>p. is_pixel red_blue_example p (255, 0, 0)) [0..<1 * 2])
       = length (filter (\<lambda>p. is_pixel red_blue_example p (0, 0, 255)) [0..<1 * 2])
   \<and> (\<exists>v. check_grayscale_nature red_blue_example = Inr v \<and> v < 0.5)"
proof -
  have a: "shape red_blue_example = [1, 2, 3]" "length (data red_blue_example) = 1 * 2 * 3"
    "(0::nat) < 1 * 2"
    by (simp_all add: red_blue_example_def)
  have p: "is_pixel red_blue_example 0 (255, 0, 0)" "is_pixel red_blue_example 1 (0, 0, 255)"
    by (simp_all add: is_pixel_def red_blue_example_def)
  have b: "\<forall>p<1 * 2. is_pixel red_blue_example p (255, 0, 0) \<or> is_pixel red_blue_example p (0, 0, 255)"
    using p by (auto simp: less2)
  have c: "length (filter (\<lambda>p. is_pixel red_blue_example p (255, 0, 0)) [0..<1 * 2])
       = length (filter (\<lambda>p. is_pixel red_blue_example p (0, 0, 255)) [0..<1 * 2])"
    by (simp add: upt2 is_pixel_def red_blue_example_def)
  show ?thesis
    using a p c red_blue_halves_score [OF a b c] by blast
qed

text \<open>
  C4. For an image of three channels with at least one pixel, the grayscale score is
  \<open>max 0 (1 - v / 1000)\<close> clamped to the interval from 0 to 1, where \<open>v\<close> is the variance of
  the three mean channel intensities. Hence an image whose three channels agree at every
  pixel scores exactly 1.
\<close>

theorem grayscale_score_formula:
  assumes "shape img = [h, w, 3]" and "length (data img) = h * w * 3" and "0 < h * w"
  shows "(let mr = channel_mean img (h * w) 0;
              mg = channel_mean img (h * w) 1;
              mb = channel_mean img (h * w) 2;
              m = (mr + mg + mb) / 3;
              v = ((mr - m)\<^sup>2 + (mg - m)\<^sup>2 + (mb - m)\<^sup>2) / 3
          in check_grayscale_nature img = Inr (min 1 (max 0 (1 - v / 1000))))
         \<and> ((\<forall>p<h * w. data img ! (p * 3) = data img ! (p * 3 + 1)
                      \<and> data img ! (p * 3 + 1) = data img ! (p * 3 + 2))
              \<longrightarrow> check_grayscale_nature img = Inr 1)"
proof (intro conjI impI)
  show "let mr = channel_mean img (h * w) 0;
            mg = channel_mean img (h * w) 1;
            mb = channel_mean img (h * w) 2;
            m = (mr + mg + mb) / 3;
            v = ((mr - m)\<^sup>2 + (mg - m)\<^sup>2 + (mb - m)\<^sup>2) / 3
        in check_grayscale_nature img = Inr (min 1 (max 0 (1 - v / 1000)))"
    unfolding Let_def by (simp only: grayscale_formula [OF assms] variance3)
next
  assume eq: "\<forall>p<h * w. data img ! (p * 3) = data img ! (p * 3 + 1)
                      \<and> data img ! (p * 3 + 1) = data img ! (p * 3 + 2)"
  have "channel_mean img (h * w) 0 = channel_mean img (h * w) 1"
    by (rule channel_mean_cong) (use eq in simp)
  moreover have "channel_mean img (h * w) 1 = channel_mean img (h * w) 2"
    by (rule channel_mean_cong) (use eq in simp)
  ultimately have "check_grayscale_nature img = Inr (min 1 (max 0 (1 - variance
        [channel_mean img (h * w) 2, channel_mean img (h * w) 2, channel_mean img (h * w) 2] / 1000)))"
    by (simp only: grayscale_formula [OF assms])
  then show "check_grayscale_nature img = Inr 1"
    by (simp only: variance3_equal) simp
qed

theorem grayscale_score_formula_witness:
  "shape rgb_example = [2, 2, 3] \<and> length (data rgb_example) = 2 * 2 * 3 \<and> (0::nat) < 2 * 2
   \<and> data rgb_example ! (0 * 3) = data rgb_example ! (0 * 3 + 1)
   \<and> data rgb_example ! (0 * 3 + 1) = data rgb_example ! (0 * 3 + 2)
   \<and> data rgb_example ! (1 * 3) = data rgb_example ! (1 * 3 + 1)
   \<and> data rgb_example ! (1 * 3 + 1) = data rgb_example ! (1 * 3 + 2)
   \<and> data rgb_example ! (2 * 3) = data rgb_example ! (2 * 3 + 1)
   \<and> data rgb_example ! (2 * 3 + 1) = data rgb_example ! (2 * 3 + 2)
   \<and> data rgb_example ! (3 * 3) = data rgb_example ! (3 * 3 + 1)
   \<and> data rgb_example ! (3 * 3 + 1) = data rgb_example ! (3 * 3 + 2)
   \<and> check_grayscale_nature rgb_example = Inr 1"
proof -
  have a: "shape rgb_example = [2, 2, 3]" "length (data rgb_example) = 2 * 2 * 3" "(0::nat) < 2 * 2"
    by (simp_all add: rgb_example_def)
  have b: "\<forall>p<2 * 2. data rgb_example ! (p * 3) = data rgb_example ! (p * 3 + 1)
                 \<and> data rgb_example ! (p * 3 + 1) = data rgb_example ! (p * 3 + 2)"
    by (auto simp: less4 rgb_example_def)
  have "check_grayscale_nature rgb_example = Inr 1"
    using b grayscale_score_formula [OF a] by blast
  then show ?thesis
    by (simp add: rgb_example_def)
qed

text \<open>
  C3, as amended. The score looks only at the three mean channel intensities: for an
  image of three channels with at least one pixel it is below 0.3 exactly when the
  variance of the three means exceeds 700. Channels that vary independently but have equal
  means score 1.
\<close>

theorem grayscale_below_threshold_iff:
  assumes "shape img = [h, w, 3]" and "length (data img) = h * w * 3" and "0 < h * w"
  shows "let mr = channel_mean img (h * w) 0;
             mg = channel_mean img (h * w) 1;
             mb = channel_mean img (h * w) 2;
             m = (mr + mg + mb) / 3;
             v = ((mr - m)\<^sup>2 + (mg - m)\<^sup>2 + (mb - m)\<^sup>2) / 3
         in \<exists>s. check_grayscale_nature img = Inr s \<and> (s < 0.3 \<longleftrightarrow> 700 < v)"
proof -
  define v where "v = variance [channel_mean img (h * w) 0, channel_mean img (h * w) 1,
    channel_mean img (h * w) 2]"
  have "check_grayscale_nature img = Inr (min 1 (max 0 (1 - v / 1000)))"
    unfolding v_def by (rule grayscale_formula [OF assms])
  moreover have "min 1 (max 0 (1 - v / 1000)) < 0.3 \<longleftrightarrow> 700 < v"
    by (auto simp: min_def max_def)
  ultimately have "\<exists>s. check_grayscale_nature img = Inr s \<and> (s < 0.3 \<longleftrightarrow> 700 < v)"
    by blast
  then show ?thesis
    unfolding v_def Let_def by (simp only: variance3)
qed

theorem grayscale_below_threshold_iff_witness:
  "shape photo_example = [1, 2, 3] \<and> length (data photo_example) = 1 * 2 * 3 \<and> (0::nat) < 1 * 2
   \<and> (\<exists>s. check_grayscale_nature photo_example = Inr s \<and> s < 0.3)"
proof -
  have a: "shape photo_example = [1, 2, 3]" "length (data photo_example) = 1 * 2 * 3"
    "(0::nat) < 1 * 2"
    by (simp_all add: photo_example_def)
  have "\<exists>s. check_grayscale_nature photo_example = Inr s \<and> s < 0.3"
    using grayscale_below_threshold_iff [OF a]
    unfolding Let_def photo_means by (simp add: power2_eq_square)
  then show ?thesis
    using a by blast
qed

text \<open>
  An image of 512 by 512 pixels whose channels differ at every pixel and whose score is
  1, not below 0.3.
\<close>

theorem randomized_channels_counterexample:
  "shape colourful_example = [512, 512, 3]
   \<and> length (data colourful_example) = 512 * 512 * 3
   \<and> check_grayscale_nature colourful_example = Inr 1
   \<and> \<not> (1 < (0.3::real))"
proof -
  have a: "shape colourful_example = [512, 512, 3]"
    "length (data colourful_example) = 512 * 512 * 3"
    "(0::nat) < 512 * 512"
    by (simp_all add: colourful_example_def length_concat_replicate colour_block_def)
  have m0: "channel_mean colourful_example (512 * 512) 0 = 85"
    by (rule colourful_mean) simp
  have m1: "channel_mean colourful_example (512 * 512) 1 = 85"
    by (rule colourful_mean) simp
  have m2: "channel_mean colourful_example (512 * 512) 2 = 85"
    by (rule colourful_mean) simp
  have "check_grayscale_nature colourful_example = Inr (min 1 (max 0 (1 - variance [85, 85, 85] / 1000)))"
    by (simp only: grayscale_formula [OF a] m0 m1 m2)
  then have "check_grayscale_nature colourful_example = Inr 1"
    by (simp add: variance3_equal)
  then show ?thesis
    using a by simp
qed

subsection \<open>The contrast and shape scores\<close>



text \<open>
  C7. The shape score is 0.7 when the circle search returns at least one circle; else
  0.6 when the edge map has more than 5 contours; else 0.4. The scorer returns no other
  value.
\<close>

theorem shape_tiers:
  "(Canny cv gray 50 150 = Inr edges \<and> HoughCircles cv gray = Inr (Some (row # rows)) \<and> row \<noteq> []
    \<longrightarrow> analyze_breast_shape_patterns cv gray = Inr 0.7)
   \<and> (Canny cv gray 50 150 = Inr edges
       \<and> (HoughCircles cv gray = Inr None \<or> HoughCircles cv gray = Inr (Some ([] # rows)))
       \<and> findContours cv edges = Inr contours
    \<longrightarrow> analyze_breast_shape_patterns cv gray = Inr (if length contours > 5 then 0.6 else 0.4))
   \<and> (\<forall>v. analyze_breast_shape_patterns cv gray = Inr v \<longrightarrow> v = 0.7 \<or> v = 0.6 \<or> v = 0.4)"
proof (intro conjI impI allI)
  assume "Canny cv gray 50 150 = Inr edges \<and> HoughCircles cv gray = Inr (Some (row # rows)) \<and> row \<noteq> []"
  then show "analyze_breast_shape_patterns cv gray = Inr 0.7"
    by (simp add: analyze_breast_shape_patterns_def circles_found_def)
next
  assume "Canny cv gray 50 150 = Inr edges
       \<and> (HoughCircles cv gray = Inr None \<or> HoughCircles cv gray = Inr (Some ([] # rows)))
       \<and> findContours cv edges = Inr contours"
  then show "analyze_breast_shape_patterns cv gray = Inr (if length contours > 5 then 0.6 else 0.4)"
    by (auto simp: analyze_breast_shape_patterns_def circles_found_def)
next
  fix v assume "analyze_breast_shape_patterns cv gray = Inr v"
  then show "v = 0.7 \<or> v = 0.6 \<or> v = 0.4"
    by (rule shape_values)
qed

theorem shape_tiers_witness:
  "Canny cv_circle_example gray_example 50 150 = Inr gray_example
   \<and> HoughCircles cv_circle_example gray_example = Inr (Some [[(1, 1, 20)]])
   \<and> analyze_breast_shape_patterns cv_circle_example gray_example = Inr 0.7
   \<and> Canny cv_example gray_example 50 150 = Inr gray_example
   \<and> HoughCircles cv_example gray_example = Inr None
   \<and> findContours cv_example gray_example = Inr []
   \<and> analyze_breast_shape_patterns cv_example gray_example = Inr 0.4"
proof -
  have a: "Canny cv_circle_example gray_example 50 150 = Inr gray_example"
    "HoughCircles cv_circle_example gray_example = Inr (Some [[(1, 1, 20)]])"
    by (simp_all add: cv_circle_example_def cv_example_def)
  have b: "Canny cv_example gray_example 50 150 = Inr gray_example"
    "HoughCircles cv_example gray_example = Inr None"
    "findContours cv_example gray_example = Inr []"
    by (simp_all add: cv_example_def)
  have "analyze_breast_shape_patterns cv_circle_example gray_example = Inr 0.7"
    using a shape_tiers [where cv = cv_circle_example and gray = gray_example
        and edges = gray_example and row = "[(1, 1, 20)]" and rows = "[]"]
    by simp
  moreover have "analyze_breast_shape_patterns cv_example gray_example = Inr 0.4"
    using b shape_tiers [where cv = cv_example and gray = gray_example
        and edges = gray_example and contours = "[]"]
    by simp
  ultimately show ?thesis
    using a b by simp
qed

subsection \<open>The characteristic analysis\<close>

text \<open>
  C8. Every value a sub-scorer returns lies between 0 and 1, and for every image the
  recorded sub-scores and the overall confidence of the analysis lie between 0 and 1.
\<close>

theorem scores_in_unit_interval:
  "(\<forall>v. check_grayscale_nature img = Inr v \<longrightarrow> 0 \<le> v \<and> v \<le> 1)
   \<and> (\<forall>v. analyze_contrast_patterns cv gray = Inr v \<longrightarrow> 0 \<le> v \<and> v \<le> 1)
   \<and> (\<forall>v. analyze_breast_shape_patterns cv gray = Inr v \<longrightarrow> 0 \<le> v \<and> v \<le> 1)
   \<and> (\<forall>v. check_medical_artifacts gray = Inr v \<longrightarrow> 0 \<le> v \<and> v \<le> 1)
   \<and> (\<forall>v. analyze_histogram_patterns cv gray = Inr v \<longrightarrow> 0 \<le> v \<and> v \<le> 1)
   \<and> (\<forall>k v. characteristics (check_mammography_characteristics cv img) k = Some v
          \<longrightarrow> 0 \<le> v \<and> v \<le> 1)
   \<and> 0 \<le> confidence (check_mammography_characteristics cv img)
   \<and> confidence (check_mammography_characteristics cv img) \<le> 1"
proof -
  have rec: "0 \<le> v \<and> v \<le> 1"
    if "characteristics (check_mammography_characteristics cv img) k = Some v" for k v
    using recorded_scores [OF that] unit_interval by blast
  have conf: "0 \<le> confidence (check_mammography_characteristics cv img)
        \<and> confidence (check_mammography_characteristics cv img) \<le> 1"
  proof (cases cv img rule: check_cases)
    case raises
    then show ?thesis by simp
  next
    case (complete gray' g c s a h)
    have "0 \<le> g \<and> g \<le> 1" "0 \<le> c \<and> c \<le> 1" "0 \<le> s \<and> s \<le> 1" "0 \<le> a \<and> a \<le> 1"
      "0 \<le> h \<and> h \<le> 1"
      using complete unit_interval by blast+
    then show ?thesis
      by (simp add: complete(8) scored_fields)
  qed
  show ?thesis
    using unit_interval rec conf by blast
qed

theorem scores_in_unit_interval_witness:
  "check_grayscale_nature rgb_example = Inr 1
   \<and> analyze_contrast_patterns cv_example gray_example = Inr 0.8
   \<and> analyze_breast_shape_patterns cv_example gray_example = Inr 0.4
   \<and> check_medical_artifacts gray_example = Inr 0.7
   \<and> analyze_histogram_patterns cv_example gray_example = Inr 0.8
   \<and> characteristics (check_mammography_characteristics cv_example rgb_example) ''shape_score''
       = Some 0.4
   \<and> confidence (check_mammography_characteristics cv_example rgb_example) = 0.74
   \<and> 0 \<le> confidence (check_mammography_characteristics cv_example rgb_example)
   \<and> confidence (check_mammography_characteristics cv_example rgb_example) \<le> 1"
  using scores_in_unit_interval [of rgb_example cv_example gray_example]
  by (simp add: example_grayscale example_contrast example_shape example_artifact
      example_histogram example_check scored_fields)

text \<open>
  C9. If the verdict of the analysis is true, all five sub-scores are recorded and the
  grayscale score is strictly greater than 0.5: the other four come from finite sets
  and sum to at most 3.0, while a true verdict needs the five to sum to more than 3.5.
\<close>

theorem verdict_needs_grayscale:
  assumes "is_mammography (check_mammography_characteristics cv img)"
  shows "\<exists>g c s a h.
           characteristics (check_mammography_characteristics cv img) ''grayscale_score'' = Some g
         \<and> characteristics (check_mammography_characteristics cv img) ''contrast_score'' = Some c
         \<and> characteristics (check_mammography_characteristics cv img) ''shape_score'' = Some s
         \<and> characteristics (check_mammography_characteristics cv img) ''artifact_score'' = Some a
         \<and> characteristics (check_mammography_characteristics cv img) ''histogram_score'' = Some h
         \<and> (c = 0.8 \<or> c = 0.6 \<or> c = 0.3) \<and> (s = 0.7 \<or> s = 0.6 \<or> s = 0.4)
         \<and> (a = 0.7 \<or> a = 0.4) \<and> (h = 0.8 \<or> h = 0.5)
         \<and> c + s + a + h \<le> 3.0 \<and> 3.5 < g + c + s + a + h \<and> 0.5 < g"
proof (cases cv img rule: check_cases)
  case raises
  then show ?thesis using assms by simp
next
  case (complete gray g c s a h)
  have v: "c = 0.8 \<or> c = 0.6 \<or> c = 0.3" "s = 0.7 \<or> s = 0.6 \<or> s = 0.4" "a = 0.7 \<or> a = 0.4"
    "h = 0.8 \<or> h = 0.5"
    using complete contrast_values shape_values artifact_values histogram_values by blast+
  have sum: "3.5 < g + c + s + a + h"
    using assms by (simp add: complete(8) scored_fields)
  have le: "c + s + a + h \<le> 3.0"
    using v by auto
  have "0.5 < g"
    using sum le by simp
  then show ?thesis
    using v sum le by (simp add: complete(8) scored_fields)
qed

theorem verdict_needs_grayscale_witness:
  "is_mammography (check_mammography_characteristics cv_example rgb_example)
   \<and> characteristics (check_mammography_characteristics cv_example rgb_example) ''grayscale_score''
       = Some 1
   \<and> (\<exists>g. characteristics (check_mammography_characteristics cv_example rgb_example)
             ''grayscale_score'' = Some g \<and> 0.5 < g)"
proof -
  have v: "is_mammography (check_mammography_characteristics cv_example rgb_example)"
    by (simp add: example_check scored_fields)
  show ?thesis
    using v verdict_needs_grayscale [OF v] by (auto simp: example_check scored_fields)
qed

text \<open>
  C10. If the conversion to grayscale and all five sub-scorers return, the confidence is
  the mean of the five scores and lies between 0.32 and 0.8: the grayscale score lies
  between 0 and 1, the contrast score between 0.3 and 0.8, the shape and artifact scores
  between 0.4 and 0.7, and the histogram score between 0.5 and 0.8.
\<close>

theorem complete_confidence_bounds:
  assumes "to_gray cv img = Inr gray"
    and "check_grayscale_nature img = Inr g"
    and "analyze_contrast_patterns cv gray = Inr c"
    and "analyze_breast_shape_patterns cv gray = Inr s"
    and "check_medical_artifacts gray = Inr a"
    and "analyze_histogram_patterns cv gray = Inr h"
  shows "0.32 \<le> confidence (check_mammography_characteristics cv img)
         \<and> confidence (check_mammography_characteristics cv img) \<le> 0.8
         \<and> confidence (check_mammography_characteristics cv img) = (g + c + s + a + h) / 5
         \<and> 0 \<le> g \<and> g \<le> 1 \<and> 0.3 \<le> c \<and> c \<le> 0.8 \<and> 0.4 \<le> s \<and> s \<le> 0.7
         \<and> 0.4 \<le> a \<and> a \<le> 0.7 \<and> 0.5 \<le> h \<and> h \<le> 0.8"
proof -
  have r: "check_mammography_characteristics cv img = scored g c s a h"
    using assms by (rule check_complete)
  have g: "0 \<le> g \<and> g \<le> 1"
    using assms(2) by (rule grayscale_range)
  have c: "0.3 \<le> c \<and> c \<le> 0.8"
    using contrast_values [OF assms(3)] by auto
  have s: "0.4 \<le> s \<and> s \<le> 0.7"
    using shape_values [OF assms(4)] by auto
  have a: "0.4 \<le> a \<and> a \<le> 0.7"
    using artifact_values [OF assms(5)] by auto
  have h: "0.5 \<le> h \<and> h \<le> 0.8"
    using histogram_values [OF assms(6)] by auto
  show ?thesis
    using g c s a h by (simp add: r scored_fields)
qed

theorem complete_confidence_bounds_witness:
  "to_gray cv_example rgb_example = Inr gray_example
   \<and> check_grayscale_nature rgb_example = Inr 1
   \<and> analyze_contrast_patterns cv_example gray_example = Inr 0.8
   \<and> analyze_breast_shape_patterns cv_example gray_example = Inr 0.4
   \<and> check_medical_artifacts gray_example = Inr 0.7
   \<and> analyze_histogram_patterns cv_example gray_example = Inr 0.8
   \<and> 0.32 \<le> confidence (check_mammography_characteristics cv_example rgb_example)
   \<and> confidence (check_mammography_characteristics cv_example rgb_example) \<le> 0.8
   \<and> confidence (check_mammography_characteristics cv_example rgb_example) = 0.74"
  using complete_confidence_bounds [OF example_to_gray example_grayscale example_contrast
      example_shape example_artifact example_histogram]
    example_to_gray example_grayscale example_contrast example_shape example_artifact
    example_histogram
  by simp

text \<open>
  C2, as amended. The analysis never raises. When the conversion to grayscale or one of
  the five sub-scorers raises, it stops there: the result has the verdict false, the
  confidence 0, and exactly the sub-scores computed before the failure, whatever the later
  sub-scorers would return; no default takes the place of the missing score. When no step
  raises, all five sub-scores are recorded.
\<close>

theorem exception_aborts_analysis:
  "(to_gray cv img = Inl e \<longrightarrow>
      check_mammography_characteristics cv img
      = \<lparr>is_mammography = False, confidence = 0, characteristics = Map.empty\<rparr>)
   \<and> (to_gray cv img = Inr gray \<and> check_grayscale_nature img = Inl e \<longrightarrow>
      check_mammography_characteristics cv img
      = \<lparr>is_mammography = False, confidence = 0, characteristics = Map.empty\<rparr>)
   \<and> (to_gray cv img = Inr gray \<and> check_grayscale_nature img = Inr g
       \<and> analyze_contrast_patterns cv gray = Inl e \<longrightarrow>
      check_mammography_characteristics cv img
      = \<lparr>is_mammography = False, confidence = 0,
         characteristics = [''grayscale_score'' \<mapsto> g]\<rparr>)
   \<and> (to_gray cv img = Inr gray \<and> check_grayscale_nature img = Inr g
       \<and> analyze_contrast_patterns cv gray = Inr c
       \<and> analyze_breast_shape_patterns cv gray = Inl e \<longrightarrow>
      check_mammography_characteristics cv img
      = \<lparr>is_mammography = False, confidence = 0,
         characteristics = [''grayscale_score'' \<mapsto> g, ''contrast_score'' \<mapsto> c]\<rparr>)
   \<and> (to_gray cv img = Inr gray \<and> check_grayscale_nature img = Inr g
       \<and> analyze_contrast_patterns cv gray = Inr c
       \<and> analyze_breast_shape_patterns cv gray = Inr s
       \<and> check_medical_artifacts gray = Inl e \<longrightarrow>
      check_mammography_characteristics cv img
      = \<lparr>is_mammography = False, confidence = 0,
         characteristics = [''grayscale_score'' \<mapsto> g, ''contrast_score'' \<mapsto> c,
           ''shape_score'' \<mapsto> s]\<rparr>)
   \<and> (to_gray cv img = Inr gray \<and> check_grayscale_nature img = Inr g
       \<and> analyze_contrast_patterns cv gray = Inr c
       \<and> analyze_breast_shape_patterns cv gray = Inr s
       \<and> check_medical_artifacts gray = Inr a
       \<and> analyze_histogram_patterns cv gray = Inl e \<longrightarrow>
      check_mammography_characteristics cv img
      = \<lparr>is_mammography = False, confidence = 0,
         characteristics = [''grayscale_score'' \<mapsto> g, ''contrast_score'' \<mapsto> c,
           ''shape_score'' \<mapsto> s, ''artifact_score'' \<mapsto> a]\<rparr>)
   \<and> (to_gray cv img = Inr gray \<and> check_grayscale_nature img = Inr g
       \<and> analyze_contrast_patterns cv gray = Inr c
       \<and> analyze_breast_shape_patterns cv gray = Inr s
       \<and> check_medical_artifacts gray = Inr a
       \<and> analyze_histogram_patterns cv gray = Inr h \<longrightarrow>
      characteristics (check_mammography_characteristics cv img)
      = [''grayscale_score'' \<mapsto> g, ''contrast_score'' \<mapsto> c, ''shape_score'' \<mapsto> s,
         ''artifact_score'' \<mapsto> a, ''histogram_score'' \<mapsto> h])"
  by (simp add: check_mammography_characteristics_def set_characteristic_def initial_result_def
      aggregate_def mean_def Let_def)

theorem exception_aborts_analysis_witness:
  "to_gray cv_example one_channel_example = Inl CvError
   \<and> check_mammography_characteristics cv_example one_channel_example
       = \<lparr>is_mammography = False, confidence = 0, characteristics = Map.empty\<rparr>
   \<and> to_gray cv_example two_channel_example = Inr \<lparr>shape = [1, 1], data = [20]\<rparr>
   \<and> check_grayscale_nature two_channel_example = Inl IndexError
   \<and> check_mammography_characteristics cv_example two_channel_example
       = \<lparr>is_mammography = False, confidence = 0, characteristics = Map.empty\<rparr>
   \<and> analyze_contrast_patterns cv_filter_failing_example gray_example = Inl CvError
   \<and> check_mammography_characteristics cv_filter_failing_example rgb_example
       = \<lparr>is_mammography = False, confidence = 0,
          characteristics = [''grayscale_score'' \<mapsto> 1]\<rparr>
   \<and> analyze_breast_shape_patterns cv_failing_example gray_example = Inl CvError
   \<and> check_mammography_characteristics cv_failing_example rgb_example
       = \<lparr>is_mammography = False, confidence = 0,
          characteristics = [''grayscale_score'' \<mapsto> 1, ''contrast_score'' \<mapsto> 0.8]\<rparr>
   \<and> check_medical_artifacts flat_example = Inl IndexError
   \<and> check_mammography_characteristics cv_flat_example rgb_example
       = \<lparr>is_mammography = False, confidence = 0,
          characteristics = [''grayscale_score'' \<mapsto> 1, ''contrast_score'' \<mapsto> 0.8,
            ''shape_score'' \<mapsto> 0.4]\<rparr>
   \<and> analyze_histogram_patterns cv_hist_failing_example gray_example = Inl CvError
   \<and> check_mammography_characteristics cv_hist_failing_example rgb_example
       = \<lparr>is_mammography = False, confidence = 0,
          characteristics = [''grayscale_score'' \<mapsto> 1, ''contrast_score'' \<mapsto> 0.8,
            ''shape_score'' \<mapsto> 0.4, ''artifact_score'' \<mapsto> 0.7]\<rparr>
   \<and> analyze_histogram_patterns cv_example gray_example = Inr 0.8
   \<and> characteristics (check_mammography_characteristics cv_example rgb_example)
       = [''grayscale_score'' \<mapsto> 1, ''contrast_score'' \<mapsto> 0.8, ''shape_score'' \<mapsto> 0.4,
          ''artifact_score'' \<mapsto> 0.7, ''histogram_score'' \<mapsto> 0.8]"
proof -
  have 1: "check_mammography_characteristics cv_example one_channel_example
       = \<lparr>is_mammography = False, confidence = 0, characteristics = Map.empty\<rparr>"
    using exception_aborts_analysis [where cv = cv_example and img = one_channel_example
        and e = CvError]
    by (simp add: one_channel_steps)
  have 2: "check_mammography_characteristics cv_example two_channel_example
       = \<lparr>is_mammography = False, confidence = 0, characteristics = Map.empty\<rparr>"
    using exception_aborts_analysis [where cv = cv_example and img = two_channel_example
        and e = IndexError and gray = "\<lparr>shape = [1, 1], data = [20]\<rparr>"]
    by (simp add: two_channel_steps)
  have 3: "check_mammography_characteristics cv_filter_failing_example rgb_example
       = \<lparr>is_mammography = False, confidence = 0,
          characteristics = [''grayscale_score'' \<mapsto> 1]\<rparr>"
    using exception_aborts_analysis [where cv = cv_filter_failing_example and img = rgb_example
        and e = CvError and gray = gray_example and g = 1]
    by (simp add: filter_failing_steps example_grayscale)
  have 4: "check_mammography_characteristics cv_failing_example rgb_example
       = \<lparr>is_mammography = False, confidence = 0,
          characteristics = [''grayscale_score'' \<mapsto> 1, ''contrast_score'' \<mapsto> 0.8]\<rparr>"
    using exception_aborts_analysis [where cv = cv_failing_example and img = rgb_example
        and e = CvError and gray = gray_example and g = 1 and c = "0.8"]
    by (simp add: failing_example_steps example_grayscale)
  have 5: "check_mammography_characteristics cv_flat_example rgb_example
       = \<lparr>is_mammography = False, confidence = 0,
          characteristics = [''grayscale_score'' \<mapsto> 1, ''contrast_score'' \<mapsto> 0.8,
            ''shape_score'' \<mapsto> 0.4]\<rparr>"
    using exception_aborts_analysis [where cv = cv_flat_example and img = rgb_example
        and e = IndexError and gray = flat_example and g = 1 and c = "0.8" and s = "0.4"]
    by (simp add: flat_steps example_grayscale)
  have 6: "check_mammography_characteristics cv_hist_failing_example rgb_example
       = \<lparr>is_mammography = False, confidence = 0,
          characteristics = [''grayscale_score'' \<mapsto> 1, ''contrast_score'' \<mapsto> 0.8,
            ''shape_score'' \<mapsto> 0.4, ''artifact_score'' \<mapsto> 0.7]\<rparr>"
    using exception_aborts_analysis [where cv = cv_hist_failing_example and img = rgb_example
        and e = CvError and gray = gray_example and g = 1 and c = "0.8" and s = "0.4"
        and a = "0.7"]
    by (simp add: hist_failing_steps example_grayscale example_artifact)
  have 7: "characteristics (check_mammography_characteristics cv_example rgb_example)
       = [''grayscale_score'' \<mapsto> 1, ''contrast_score'' \<mapsto> 0.8, ''shape_score'' \<mapsto> 0.4,
          ''artifact_score'' \<mapsto> 0.7, ''histogram_score'' \<mapsto> 0.8]"
    using exception_aborts_analysis [where cv = cv_example and img = rgb_example
        and gray = gray_example and g = 1 and c = "0.8" and s = "0.4" and a = "0.7"
        and h = "0.8"]
    by (simp add: example_to_gray example_grayscale example_contrast example_shape
        example_artifact example_histogram)
  show ?thesis
    using 1 2 3 4 5 6 7
    by (simp only: one_channel_steps two_channel_steps filter_failing_steps
        failing_example_steps flat_steps hist_failing_steps example_histogram simp_thms)
qed

text \<open>
  An array with two channels: the grayscale scorer raises on it, and the analysis returns
  the confidence 0 with no sub-score recorded, although the gray image was there for the
  other four.
\<close>

theorem degenerate_input_counterexample:
  "to_gray cv_example two_channel_example = Inr \<lparr>shape = [1, 1], data = [20]\<rparr>
   \<and> check_grayscale_nature two_channel_example = Inl IndexError
   \<and> confidence (check_mammography_characteristics cv_example two_channel_example) = 0
   \<and> \<not> is_mammography (check_mammography_characteristics cv_example two_channel_example)
   \<and> characteristics (check_mammography_characteristics cv_example two_channel_example)
       ''grayscale_score'' = None"
  by (simp add: two_channel_steps check_mammography_characteristics_def initial_result_def
      Let_def)

end
